theory Spec2Isabelle
  imports Complex_Main
begin

section \<open>The HTTP gateway: ApiService\<close>

text \<open>
  The request and response shapes of the service file. A field declared with \<open>?\<close> is
  an \<open>option\<close> (\<open>None\<close>: the property is absent). The precision is declared
  \<open>number\<close>, but the service tests it against \<open>null\<close>, in one revision with
  \<open>==\<close> and in another with \<open>===\<close>; the two tests differ on \<open>undefined\<close>, so the
  model keeps \<open>undefined\<close>, \<open>null\<close> and a number apart.
\<close>

datatype jsnumber = Undefined | Null | Num int

record solve_request =
  req_method :: string
  req_matrix :: "string list list"
  req_constants :: "string list"
  req_precision :: jsnumber
  req_scaling :: "bool option"
  req_stepByStep :: "bool option"
  req_luForm :: "string option"
  req_initialGuess :: "string list option"
  req_stoppingCondition :: "string option"
  req_maxIterations :: "int option"
  req_tolerance :: "real option"
  req_symbolic :: "bool option"

record solve_response =
  res_solution :: "string list option"
  res_executionTime :: string
  res_iterations :: "int option"
  res_steps :: "string list option"
  res_message :: "string option"
  res_error :: "string option"

record root_request =
  rq_method :: string
  rq_equation :: string
  rq_xLower :: "string option"
  rq_xUpper :: "string option"
  rq_x0 :: "string option"
  rq_x1 :: "string option"
  rq_gEquation :: "string option"
  rq_precision :: jsnumber
  rq_eps :: real
  rq_maxIterations :: int
  rq_stepByStep :: "bool option"

record root_response =
  rr_root :: "real option"
  rr_iterations :: "int option"
  rr_approximateError :: "real option"
  rr_significantFigures :: "int option"
  rr_executionTime :: string
  rr_steps :: "string list option"
  rr_plotImage :: "string option"
  rr_message :: "string option"
  rr_error :: "string option"

record plot_request =
  pq_method :: string
  pq_equation :: string

text \<open>
  \<open>this.http.post(url, body)\<close>: the observable a service method returns, described by
  the address and the body of the POST it performs once subscribed to. \<open>TypeError\<close> is
  what reading a property of \<open>undefined\<close> throws; a method that throws returns no
  observable, so nothing can be posted.
\<close>

datatype http_post =
    PostSolve string solve_request
  | PostRoot string root_request
  | PostPlot string plot_request

datatype js_error = TypeError

definition apiUrl :: string where
  "apiUrl = ''http://localhost:8080/api''"

text \<open>
  The three \<open>map\<close> calls that open \<open>solveSystem\<close> (the same text in part_000 lines
  37-45 and in the first two service files of part_001). \<open>request.initialGuess!\<close> is
  erased by the compiler: on an absent \<open>initialGuess\<close> the call of \<open>.map\<close> throws.
\<close>

definition fillDefaults :: "solve_request \<Rightarrow> js_error + solve_request" where
  "fillDefaults request =
     (let request = request\<lparr>req_matrix :=
            map (\<lambda>row. map (\<lambda>cell. if cell = '''' then ''0'' else cell) row)
              (req_matrix request)\<rparr>;
          request = request\<lparr>req_constants :=
            map (\<lambda>cell. if cell = '''' then ''0'' else cell) (req_constants request)\<rparr>
      in case req_initialGuess request of
           None \<Rightarrow> Inl TypeError
         | Some guess \<Rightarrow>
             Inr (request\<lparr>req_initialGuess :=
               Some (map (\<lambda>cell. if cell = '''' then ''1'' else cell) guess)\<rparr>))"

text \<open>The regular expression \<open>/^[a-zA-Z]$/\<close>: exactly one character, an ASCII letter.\<close>

definition isLetter :: "char \<Rightarrow> bool" where
  "isLetter c =
     (let n = (of_char c :: nat) in (97 \<le> n \<and> n \<le> 122) \<or> (65 \<le> n \<and> n \<le> 90))"

fun testSingleLetter :: "string \<Rightarrow> bool" where
  "testSingleLetter [c] = isLetter c"
| "testSingleLetter _ = False"

text \<open>
  The loop nest that sets \<open>request.symbolic\<close>. \<open>scanCells\<close> is the loop over \<open>j\<close> on the
  cells of one row from index \<open>j\<close> on: a letter stores \<open>true\<close> and goes on, anything
  else stores \<open>false\<close> and leaves this loop (\<open>break\<close>). \<open>scanRows\<close> is the loop over
  \<open>i\<close>, which has no exit of its own and runs the inner loop on every row.
\<close>

fun scanCells :: "bool option \<Rightarrow> string list \<Rightarrow> bool option" where
  "scanCells symbolic [] = symbolic"
| "scanCells symbolic (cell # cells) =
     (if testSingleLetter cell then scanCells (Some True) cells else Some False)"

fun scanRows :: "bool option \<Rightarrow> string list list \<Rightarrow> bool option" where
  "scanRows symbolic [] = symbolic"
| "scanRows symbolic (row # rows) = scanRows (scanCells symbolic row) rows"

text \<open>part_001, first service file (lines 73-104): posts to \<open>/solve/linear\<close>.\<close>

definition solveSystem_p001a :: "solve_request \<Rightarrow> js_error + http_post" where
  "solveSystem_p001a request =
     (case fillDefaults request of
        Inl e \<Rightarrow> Inl e
      | Inr request \<Rightarrow>
          (let request =
                 (if req_precision request = Null \<or> req_precision request = Undefined
                  then request\<lparr>req_precision := Num 4\<rparr> else request);
               request = request\<lparr>req_symbolic :=
                 scanRows (req_symbolic request) (req_matrix request)\<rparr>
           in Inr (PostSolve (apiUrl @ ''/solve/linear'') request)))"

text \<open>part_001, second service file (lines 152-183): the same body, posting to \<open>/solve\<close>.\<close>

definition solveSystem_p001b :: "solve_request \<Rightarrow> js_error + http_post" where
  "solveSystem_p001b request =
     (case fillDefaults request of
        Inl e \<Rightarrow> Inl e
      | Inr request \<Rightarrow>
          (let request =
                 (if req_precision request = Null \<or> req_precision request = Undefined
                  then request\<lparr>req_precision := Num 4\<rparr> else request);
               request = request\<lparr>req_symbolic :=
                 scanRows (req_symbolic request) (req_matrix request)\<rparr>
           in Inr (PostSolve (apiUrl @ ''/solve'') request)))"

text \<open>
  part_000 (lines 36-51): the precision is compared with \<open>=== null\<close>, so only \<open>null\<close>
  is replaced, by 5; there is no symbolic flag in this revision.
\<close>

definition solveSystem_p000 :: "solve_request \<Rightarrow> js_error + http_post" where
  "solveSystem_p000 request =
     (case fillDefaults request of
        Inl e \<Rightarrow> Inl e
      | Inr request \<Rightarrow>
          (let request =
                 (if req_precision request = Null
                  then request\<lparr>req_precision := Num 5\<rparr> else request)
           in Inr (PostSolve (apiUrl @ ''/solve'') request)))"

text \<open>part_001, third service file (lines 220-223): the request is posted as it came.\<close>

definition solveSystem_p001c :: "solve_request \<Rightarrow> js_error + http_post" where
  "solveSystem_p001c request = Inr (PostSolve (apiUrl @ ''/solve'') request)"

definition solveRootFinding :: "root_request \<Rightarrow> js_error + http_post" where
  "solveRootFinding request = Inr (PostRoot (apiUrl @ ''/solve/nonlinear'') request)"

definition getPlot :: "plot_request \<Rightarrow> js_error + http_post" where
  "getPlot request = Inr (PostPlot (apiUrl @ ''/plot'') request)"

text \<open>The body of a posted linear-system request.\<close>

fun solveBody :: "js_error + http_post \<Rightarrow> solve_request option" where
  "solveBody (Inr (PostSolve u b)) = Some b"
| "solveBody _ = None"

section \<open>The browser\<close>

text \<open>
  What the components reach outside themselves: the interval timers that are running
  (handle and delay in milliseconds), the POSTs issued so far, the local storage, the
  class list of the root document element and the answer of
  \<open>matchMedia('(prefers-color-scheme: dark)')\<close>.
\<close>

record browser =
  timers :: "nat \<rightharpoonup> int"
  nextHandle :: nat
  outbox :: "http_post list"
  localStorage :: "string \<rightharpoonup> string"
  classList :: "string list"
  prefersDark :: bool

text \<open>
  \<open>setInterval\<close> returns a fresh handle; handles are positive integers, so the test
  \<open>if (this.simulationInterval)\<close> of the components is a test against \<open>null\<close>.
\<close>

definition setInterval :: "int \<Rightarrow> browser \<Rightarrow> nat \<times> browser" where
  "setInterval delay w =
     (let h = Suc (nextHandle w)
      in (h, w\<lparr>timers := (timers w)(h \<mapsto> delay), nextHandle := h\<rparr>))"

definition clearInterval :: "nat \<Rightarrow> browser \<Rightarrow> browser" where
  "clearInterval h w = w\<lparr>timers := (timers w)(h := None)\<rparr>"

text \<open>\<open>classList.add\<close> and \<open>classList.remove\<close> on a token list without repetitions.\<close>

definition classList_add :: "string \<Rightarrow> string list \<Rightarrow> string list" where
  "classList_add c cs = (if c \<in> set cs then cs else cs @ [c])"

definition classList_remove :: "string \<Rightarrow> string list \<Rightarrow> string list" where
  "classList_remove c cs = filter (\<lambda>x. x \<noteq> c) cs"

section \<open>Step playback, shared by both components\<close>

text \<open>
  The fields that LinearSystemSolverComponent and RootFinderComponent declare with the
  same names and types. The playback methods have the same text in both classes (the
  root finder marks them as copied), so they are modelled once, on any extension of
  this record.
\<close>

record view =
  steps :: "string list"
  currentStep :: int
  loading :: bool
  errorMessage :: string
  isPlaying :: bool
  speedLevel :: int
  simulationInterval :: "nat option"

definition stopSimulation ::
  "'a view_scheme \<Rightarrow> browser \<Rightarrow> 'a view_scheme \<times> browser" where
  "stopSimulation s w =
     (let s = s\<lparr>isPlaying := False\<rparr>
      in case simulationInterval s of
           None \<Rightarrow> (s, w)
         | Some h \<Rightarrow> (s\<lparr>simulationInterval := None\<rparr>, clearInterval h w))"

definition previousStep ::
  "'a view_scheme \<Rightarrow> browser \<Rightarrow> 'a view_scheme \<times> browser" where
  "previousStep s w =
     (if currentStep s > 0 then (s\<lparr>currentStep := currentStep s - 1\<rparr>, w) else (s, w))"

definition nextStep ::
  "'a view_scheme \<Rightarrow> browser \<Rightarrow> 'a view_scheme \<times> browser" where
  "nextStep s w =
     (if currentStep s < int (length (steps s)) - 1
      then (s\<lparr>currentStep := currentStep s + 1\<rparr>, w)
      else stopSimulation s w)"

definition startSimulation ::
  "'a view_scheme \<Rightarrow> browser \<Rightarrow> 'a view_scheme \<times> browser" where
  "startSimulation s w =
     (let s = (if currentStep s \<ge> int (length (steps s)) - 1
               then s\<lparr>currentStep := 0\<rparr> else s);
          s = s\<lparr>isPlaying := True\<rparr>;
          interval = 2200 - speedLevel s * 200;
          (h, w) = setInterval interval w
      in (s\<lparr>simulationInterval := Some h\<rparr>, w))"

definition toggleSimulation ::
  "'a view_scheme \<Rightarrow> browser \<Rightarrow> 'a view_scheme \<times> browser" where
  "toggleSimulation s w =
     (if isPlaying s then stopSimulation s w else startSimulation s w)"

definition onSpeedChange ::
  "'a view_scheme \<Rightarrow> browser \<Rightarrow> 'a view_scheme \<times> browser" where
  "onSpeedChange s w =
     (if isPlaying s
      then (let (s, w) = stopSimulation s w in startSimulation s w)
      else (s, w))"

text \<open>
  The callback given to \<open>setInterval\<close>: \<open>nextStep\<close>, then change detection (which
  changes no field). It runs only while its timer has not been cleared.
\<close>

definition tick ::
  "nat \<Rightarrow> 'a view_scheme \<Rightarrow> browser \<Rightarrow> 'a view_scheme \<times> browser" where
  "tick h s w = (case timers w h of None \<Rightarrow> (s, w) | Some delay \<Rightarrow> nextStep s w)"

text \<open>The playback operations a user or a timer can trigger.\<close>

datatype playback_op =
    PreviousStep | NextStep | ToggleSimulation | StartSimulation | StopSimulation
  | OnSpeedChange | Tick nat

fun playback ::
  "playback_op \<Rightarrow> 'a view_scheme \<Rightarrow> browser \<Rightarrow> 'a view_scheme \<times> browser" where
  "playback PreviousStep s w = previousStep s w"
| "playback NextStep s w = nextStep s w"
| "playback ToggleSimulation s w = toggleSimulation s w"
| "playback StartSimulation s w = startSimulation s w"
| "playback StopSimulation s w = stopSimulation s w"
| "playback OnSpeedChange s w = onSpeedChange s w"
| "playback (Tick h) s w = tick h s w"

text \<open>
  The body of an HTTP error response, as far as the error handlers read it:
  \<open>error.error\<close> may be absent, and so may its properties \<open>error\<close> and \<open>message\<close>.
\<close>

record error_body =
  body_error :: "string option"
  body_message :: "string option"

record http_error =
  err_error :: "error_body option"

text \<open>\<open>error.error?.error\<close> and \<open>error.error?.message\<close>.\<close>

definition errorOf :: "http_error \<Rightarrow> string option" where
  "errorOf e = (case err_error e of None \<Rightarrow> None | Some b \<Rightarrow> body_error b)"

definition messageOf :: "http_error \<Rightarrow> string option" where
  "messageOf e = (case err_error e of None \<Rightarrow> None | Some b \<Rightarrow> body_message b)"

text \<open>
  \<open>a || d\<close> where \<open>a\<close> is a string or \<open>undefined\<close> and \<open>d\<close> a string: \<open>undefined\<close> and
  the empty string are falsy.
\<close>

definition orElse :: "string option \<Rightarrow> string \<Rightarrow> string" where
  "orElse a d = (case a of None \<Rightarrow> d | Some s \<Rightarrow> if s = '''' then d else s)"

section \<open>LinearSystemSolverComponent\<close>

record lin_solver = view +
  numEquations :: nat
  matrix :: "string list list"
  constants :: "string list"
  lin_method :: string
  luForm :: string
  precision :: jsnumber
  initialGuess :: "string list"
  maxIterations :: int
  tolerance :: real
  useScaling :: bool
  stepByStep :: bool
  result :: "solve_response option"

text \<open>The field initialisers of the class.\<close>

definition newLinearSystemSolver :: lin_solver where
  "newLinearSystemSolver =
     \<lparr>steps = [], currentStep = 0, loading = False, errorMessage = '''',
      isPlaying = False, speedLevel = 5, simulationInterval = None,
      numEquations = 3, matrix = [], constants = [], lin_method = ''gauss-elimination'',
      luForm = ''doolittle'', precision = Num 5, initialGuess = [], maxIterations = 50,
      tolerance = 1 / 100000, useScaling = False, stepByStep = True, result = None\<rparr>"

text \<open>
  \<open>Array(n).fill(null).map(() => Array(n).fill(''))\<close> makes a new row for every index,
  so no two rows are the same array and lists of lists model the matrix.
\<close>

definition initializeMatrix :: "lin_solver \<Rightarrow> lin_solver" where
  "initializeMatrix s =
     (let s = s\<lparr>matrix :=
            map (\<lambda>_. replicate (numEquations s) '''') (replicate (numEquations s) Null)\<rparr>;
          s = s\<lparr>constants := replicate (numEquations s) ''''\<rparr>
      in s\<lparr>initialGuess := replicate (numEquations s) ''0''\<rparr>)"

definition ngOnInit :: "lin_solver \<Rightarrow> lin_solver" where
  "ngOnInit s = initializeMatrix s"

definition addEquation :: "lin_solver \<Rightarrow> lin_solver" where
  "addEquation s =
     (let s = s\<lparr>numEquations := numEquations s + 1\<rparr>;
          s = s\<lparr>matrix := map (\<lambda>row. row @ ['''']) (matrix s)\<rparr>;
          s = s\<lparr>matrix := matrix s @ [replicate (numEquations s) '''']\<rparr>;
          s = s\<lparr>constants := constants s @ ['''']\<rparr>
      in s\<lparr>initialGuess := initialGuess s @ [''0'']\<rparr>)"

text \<open>\<open>pop\<close> drops the last element and leaves an empty array empty, as \<open>butlast\<close> does.\<close>

definition removeEquation :: "lin_solver \<Rightarrow> lin_solver" where
  "removeEquation s =
     (if numEquations s > 2
      then (let s = s\<lparr>numEquations := numEquations s - 1\<rparr>;
                s = s\<lparr>matrix := map butlast (matrix s)\<rparr>;
                s = s\<lparr>matrix := butlast (matrix s)\<rparr>;
                s = s\<lparr>constants := butlast (constants s)\<rparr>
            in s\<lparr>initialGuess := butlast (initialGuess s)\<rparr>)
      else s)"

definition isIterativeMethod :: "lin_solver \<Rightarrow> bool" where
  "isIterativeMethod s = (lin_method s = ''jacobi'' \<or> lin_method s = ''gauss-seidel'')"

text \<open>
  \<open>handleSolve\<close>, up to the call of \<open>subscribe\<close>. The service revision in use is the
  parameter \<open>solveSystem\<close>. Subscribing to the observable issues its POST; if the
  service throws, the exception leaves the method with the fields as they are then.
\<close>

definition handleSolve ::
  "(solve_request \<Rightarrow> js_error + http_post) \<Rightarrow> lin_solver \<Rightarrow> browser \<Rightarrow>
     js_error option \<times> lin_solver \<times> browser" where
  "handleSolve solveSystem s w =
     (let s = s\<lparr>loading := True, result := None, steps := [], currentStep := 0\<rparr>;
          (s, w) = stopSimulation s w;
          payload =
            \<lparr>req_method = lin_method s, req_matrix = matrix s, req_constants = constants s,
             req_precision = precision s, req_scaling = Some (useScaling s),
             req_stepByStep = Some (stepByStep s), req_luForm = Some (luForm s),
             req_initialGuess = Some (initialGuess s), req_stoppingCondition = None,
             req_maxIterations = Some (maxIterations s),
             req_tolerance = Some (tolerance s), req_symbolic = None\<rparr>
      in case solveSystem payload of
           Inl e \<Rightarrow> (Some e, s, w)
         | Inr post \<Rightarrow> (None, s, w\<lparr>outbox := outbox w @ [post]\<rparr>))"

text \<open>The two handlers given to \<open>subscribe\<close>.\<close>

definition solveNext :: "solve_response \<Rightarrow> lin_solver \<Rightarrow> lin_solver" where
  "solveNext response s =
     (let s = s\<lparr>result := Some response\<rparr>;
          s = (case res_steps response of
                 None \<Rightarrow> s
               | Some st \<Rightarrow> if length st > 0 then s\<lparr>steps := st, currentStep := 0\<rparr> else s)
      in s\<lparr>loading := False\<rparr>)"

definition solveError :: "http_error \<Rightarrow> lin_solver \<Rightarrow> lin_solver" where
  "solveError error s =
     (let s = s\<lparr>errorMessage := orElse (messageOf error) ''An error occurred''\<rparr>
      in s\<lparr>loading := False\<rparr>)"

definition clearAll :: "lin_solver \<Rightarrow> browser \<Rightarrow> lin_solver \<times> browser" where
  "clearAll s w =
     (let s = initializeMatrix s;
          s = s\<lparr>result := None, steps := [], currentStep := 0, errorMessage := ''''\<rparr>
      in stopSimulation s w)"

text \<open>
  The shape the form keeps: at least two equations, a square matrix of that size, and
  as many constants and initial guesses.
\<close>

definition shapeInvariant :: "lin_solver \<Rightarrow> bool" where
  "shapeInvariant s =
     (2 \<le> numEquations s \<and>
      length (matrix s) = numEquations s \<and>
      (\<forall>row \<in> set (matrix s). length row = numEquations s) \<and>
      length (constants s) = numEquations s \<and>
      length (initialGuess s) = numEquations s)"

section \<open>RootFinderComponent\<close>

record root_finder = view +
  equation :: string
  rf_method :: string
  xLower :: string
  xUpper :: string
  x0 :: string
  x1 :: string
  gEquation :: string
  rf_precision :: jsnumber
  eps :: real
  rf_maxIterations :: int
  rf_stepByStep :: bool
  rf_result :: "root_response option"
  plotImage :: "string option"
  loadingPlot :: bool
  plotErrorMessage :: string

text \<open>The field initialisers of the class, and \<open>ngOnInit\<close>.\<close>

definition newRootFinder :: root_finder where
  "newRootFinder =
     \<lparr>steps = [], currentStep = 0, loading = False, errorMessage = '''',
      isPlaying = False, speedLevel = 5, simulationInterval = None,
      equation = '''', rf_method = ''bisection'', xLower = '''', xUpper = '''',
      x0 = '''', x1 = '''', gEquation = '''', rf_precision = Num 5, eps = 1 / 100000,
      rf_maxIterations = 50, rf_stepByStep = True, rf_result = None, plotImage = None,
      loadingPlot = False, plotErrorMessage = ''''\<rparr>"

definition rf_ngOnInit :: "root_finder \<Rightarrow> root_finder" where
  "rf_ngOnInit s =
     s\<lparr>equation := ''x^2 - 4'', xLower := ''-5'', xUpper := ''5'', x0 := ''1'', x1 := ''2''\<rparr>"

definition requiresInterval :: "root_finder \<Rightarrow> bool" where
  "requiresInterval s = (rf_method s = ''bisection'' \<or> rf_method s = ''false-position'')"

definition requiresSingleGuess :: "root_finder \<Rightarrow> bool" where
  "requiresSingleGuess s =
     (rf_method s = ''fixed-point'' \<or> rf_method s = ''newton'' \<or>
      rf_method s = ''modified-newton'')"

definition requiresTwoGuesses :: "root_finder \<Rightarrow> bool" where
  "requiresTwoGuesses s = (rf_method s = ''secant'')"

definition rf_handleSolve ::
  "root_finder \<Rightarrow> browser \<Rightarrow> js_error option \<times> root_finder \<times> browser" where
  "rf_handleSolve s w =
     (let s = s\<lparr>loading := True, rf_result := None, steps := [], currentStep := 0,
                errorMessage := ''''\<rparr>;
          (s, w) = stopSimulation s w;
          payload =
            \<lparr>rq_method = rf_method s, rq_equation = equation s, rq_xLower = None,
             rq_xUpper = None, rq_x0 = None, rq_x1 = None, rq_gEquation = None,
             rq_precision = rf_precision s, rq_eps = eps s,
             rq_maxIterations = rf_maxIterations s,
             rq_stepByStep = Some (rf_stepByStep s)\<rparr>;
          payload =
            (if requiresInterval s
             then payload\<lparr>rq_xLower := Some (xLower s), rq_xUpper := Some (xUpper s)\<rparr>
             else if requiresSingleGuess s
             then (let payload = payload\<lparr>rq_x0 := Some (x0 s)\<rparr>
                   in if rf_method s = ''fixed-point'' \<and> gEquation s \<noteq> ''''
                      then payload\<lparr>rq_gEquation := Some (gEquation s)\<rparr> else payload)
             else if requiresTwoGuesses s
             then payload\<lparr>rq_x0 := Some (x0 s), rq_x1 := Some (x1 s)\<rparr>
             else payload)
      in case solveRootFinding payload of
           Inl e \<Rightarrow> (Some e, s, w)
         | Inr post \<Rightarrow> (None, s, w\<lparr>outbox := outbox w @ [post]\<rparr>))"

definition rf_solveNext :: "root_response \<Rightarrow> root_finder \<Rightarrow> root_finder" where
  "rf_solveNext response s =
     (let s = s\<lparr>rf_result := Some response\<rparr>;
          s = (case rr_steps response of
                 None \<Rightarrow> s
               | Some st \<Rightarrow> if length st > 0 then s\<lparr>steps := st, currentStep := 0\<rparr> else s)
      in s\<lparr>loading := False\<rparr>)"

definition rf_solveError :: "http_error \<Rightarrow> root_finder \<Rightarrow> root_finder" where
  "rf_solveError error s =
     (let s = s\<lparr>errorMessage :=
            orElse (errorOf error)
              (orElse (messageOf error) ''An error occurred while solving'')\<rparr>
      in s\<lparr>loading := False\<rparr>)"

section \<open>ThemeService\<close>

text \<open>The value held by \<open>darkModeSubject\<close>.\<close>

record theme_service =
  darkMode :: bool

definition stringOfBool :: "bool \<Rightarrow> string" where
  "stringOfBool b = (if b then ''true'' else ''false'')"

definition getInitialTheme :: "browser \<Rightarrow> bool" where
  "getInitialTheme w =
     (case localStorage w ''darkMode'' of
        Some savedTheme \<Rightarrow> savedTheme = ''true''
      | None \<Rightarrow> prefersDark w)"

definition applyTheme :: "bool \<Rightarrow> browser \<Rightarrow> browser" where
  "applyTheme isDark w =
     (if isDark then w\<lparr>classList := classList_add ''dark'' (classList w)\<rparr>
      else w\<lparr>classList := classList_remove ''dark'' (classList w)\<rparr>)"

text \<open>The field initialiser and the constructor.\<close>

definition newThemeService :: "browser \<Rightarrow> theme_service \<times> browser" where
  "newThemeService w =
     (let t = \<lparr>darkMode = getInitialTheme w\<rparr> in (t, applyTheme (darkMode t) w))"

definition toggleDarkMode :: "theme_service \<Rightarrow> browser \<Rightarrow> theme_service \<times> browser" where
  "toggleDarkMode t w =
     (let newValue = \<not> darkMode t;
          t = t\<lparr>darkMode := newValue\<rparr>;
          w = applyTheme newValue w;
          w = w\<lparr>localStorage := (localStorage w)(''darkMode'' \<mapsto> stringOfBool newValue)\<rparr>
      in (t, w))"

section \<open>Concrete inputs\<close>

text \<open>
  A request as the linear-system form builds it, with empty cells in the matrix, the
  constants and the initial guess, and a precision field emptied by the user.
\<close>

definition sampleRequest :: solve_request where
  "sampleRequest =
     \<lparr>req_method = ''jacobi'', req_matrix = [[''a'', ''''], [''7'', ''x'']],
      req_constants = ['''', ''3''], req_precision = Null, req_scaling = Some False,
      req_stepByStep = Some True, req_luForm = Some ''doolittle'',
      req_initialGuess = Some ['''', ''5''], req_stoppingCondition = None,
      req_maxIterations = Some 50, req_tolerance = Some (1 / 100000),
      req_symbolic = None\<rparr>"

text \<open>The sample request after the empty cells have been filled.\<close>

definition filledSample :: solve_request where
  "filledSample =
     sampleRequest\<lparr>req_matrix := [[''a'', ''0''], [''7'', ''x'']],
       req_constants := [''0'', ''3''], req_initialGuess := Some [''1'', ''5'']\<rparr>"

definition lettersThenDigit :: solve_request where
  "lettersThenDigit = sampleRequest\<lparr>req_matrix := [[''a'', ''b''], [''1'', ''c'']]\<rparr>"

definition digitThenLetters :: solve_request where
  "digitThenLetters = sampleRequest\<lparr>req_matrix := [[''1'', ''c''], [''a'', ''b'']]\<rparr>"

text \<open>A page that has just been loaded: no timer, no request, nothing stored.\<close>

definition freshBrowser :: browser where
  "freshBrowser =
     \<lparr>timers = Map.empty, nextHandle = 0, outbox = [], localStorage = Map.empty,
      classList = [], prefersDark = False\<rparr>"

text \<open>A linear solver playing its three steps, at the last one, with timer 1 running.\<close>

definition atLastStep :: lin_solver where
  "atLastStep =
     (ngOnInit newLinearSystemSolver)
       \<lparr>steps := [''R2 = R2 - 2 R1'', ''R3 = R3 + R1'', ''x3 = 1''], currentStep := 2,
        isPlaying := True, simulationInterval := Some 1\<rparr>"

definition playingBrowser :: browser where
  "playingBrowser = freshBrowser\<lparr>timers := [1 \<mapsto> 1200], nextHandle := 1\<rparr>"

text \<open>An error response whose body carries \<open>error\<close> and no \<open>message\<close>.\<close>

definition singularMatrixError :: http_error where
  "singularMatrixError =
     \<lparr>err_error = Some \<lparr>body_error = Some ''Matrix is singular'', body_message = None\<rparr>\<rparr>"

text \<open>Theme states and storage contents.\<close>

definition lightTheme :: theme_service where
  "lightTheme = \<lparr>darkMode = False\<rparr>"

definition pageBrowser :: browser where
  "pageBrowser = freshBrowser\<lparr>classList := [''app'']\<rparr>"

definition savedDark :: browser where
  "savedDark = freshBrowser\<lparr>localStorage := [''darkMode'' \<mapsto> ''true'']\<rparr>"

definition savedOther :: browser where
  "savedOther = freshBrowser\<lparr>localStorage := [''darkMode'' \<mapsto> ''yes''], prefersDark := True\<rparr>"

definition prefersDarkBrowser :: browser where
  "prefersDarkBrowser = freshBrowser\<lparr>prefersDark := True\<rparr>"

text \<open>The solve button pressed twice in a row on the initial form, with no response between.\<close>

definition firstSolve :: "js_error option \<times> lin_solver \<times> browser" where
  "firstSolve = handleSolve solveSystem_p001a (ngOnInit newLinearSystemSolver) freshBrowser"

definition secondSolve :: "js_error option \<times> lin_solver \<times> browser" where
  "secondSolve = handleSolve solveSystem_p001a (fst (snd firstSolve)) (snd (snd firstSolve))"

section \<open>Properties of ApiService.solveSystem\<close>

lemma fillDefaults_Inr:
  assumes "fillDefaults request = Inr filled"
  shows "req_matrix filled =
           map (map (\<lambda>cell. if cell = [] then ''0'' else cell)) (req_matrix request)"
    and "req_constants filled =
           map (\<lambda>cell. if cell = [] then ''0'' else cell) (req_constants request)"
    and "\<exists>guess. req_initialGuess request = Some guess \<and>
           req_initialGuess filled =
             Some (map (\<lambda>cell. if cell = [] then ''1'' else cell) guess)"
    and "req_precision filled = req_precision request"
    and "req_symbolic filled = req_symbolic request"
  using assms by (auto simp: fillDefaults_def Let_def split: option.splits)

lemma solveSystem_posts_filled:
  assumes "solveSystem \<in> {solveSystem_p001a, solveSystem_p001b, solveSystem_p000}"
    and "req_initialGuess request = Some guess"
  shows "\<exists>u sent filled.
           solveSystem request = Inr (PostSolve u sent) \<and>
           fillDefaults request = Inr filled \<and>
           req_matrix sent = req_matrix filled \<and>
           req_constants sent = req_constants filled \<and>
           req_initialGuess sent = req_initialGuess filled"
  using assms
  by (auto simp: solveSystem_p001a_def solveSystem_p001b_def solveSystem_p000_def
      fillDefaults_def Let_def)

text \<open>
  C1: in the revisions that fill defaults (part_000 and the first two service files of
  part_001), every request that carries an initial guess is posted, and the request
  that is posted has the shape of the request passed in; every matrix cell and every
  constant that was the empty string is \<open>"0"\<close>, every empty initial-guess cell is
  \<open>"1"\<close>, and every other cell is the cell passed in.
\<close>

theorem solveSystem_fills_empty_cells:
  assumes "solveSystem \<in> {solveSystem_p001a, solveSystem_p001b, solveSystem_p000}"
    and "req_initialGuess request = Some guess"
  shows "\<exists>u sent.
         solveSystem request = Inr (PostSolve u sent) \<and>
         length (req_matrix sent) = length (req_matrix request) \<and>
         (\<forall>i < length (req_matrix request).
            length (req_matrix sent ! i) = length (req_matrix request ! i) \<and>
            (\<forall>j < length (req_matrix request ! i).
               req_matrix sent ! i ! j =
                 (if req_matrix request ! i ! j = '''' then ''0''
                  else req_matrix request ! i ! j))) \<and>
         length (req_constants sent) = length (req_constants request) \<and>
         (\<forall>i < length (req_constants request).
            req_constants sent ! i =
              (if req_constants request ! i = '''' then ''0''
               else req_constants request ! i)) \<and>
         (\<exists>filled.
            req_initialGuess sent = Some filled \<and>
            length filled = length guess \<and>
            (\<forall>i < length guess.
               filled ! i = (if guess ! i = '''' then ''1'' else guess ! i)))"
proof -
  from solveSystem_posts_filled [OF assms] obtain u sent filled where
    p: "solveSystem request = Inr (PostSolve u sent)"
    and f: "fillDefaults request = Inr filled"
    and m: "req_matrix sent = req_matrix filled"
    and c: "req_constants sent = req_constants filled"
    and g: "req_initialGuess sent = req_initialGuess filled"
    by blast
  have "length (req_matrix sent) = length (req_matrix request)"
    by (simp add: m fillDefaults_Inr(1) [OF f])
  moreover have "\<forall>i < length (req_matrix request).
            length (req_matrix sent ! i) = length (req_matrix request ! i) \<and>
            (\<forall>j < length (req_matrix request ! i).
               req_matrix sent ! i ! j =
                 (if req_matrix request ! i ! j = '''' then ''0''
                  else req_matrix request ! i ! j))"
    by (simp add: m fillDefaults_Inr(1) [OF f])
  moreover have "length (req_constants sent) = length (req_constants request)"
    by (simp add: c fillDefaults_Inr(2) [OF f])
  moreover have "\<forall>i < length (req_constants request).
            req_constants sent ! i =
              (if req_constants request ! i = '''' then ''0''
               else req_constants request ! i)"
    by (simp add: c fillDefaults_Inr(2) [OF f])
  moreover have "\<exists>filled.
            req_initialGuess sent = Some filled \<and>
            length filled = length guess \<and>
            (\<forall>i < length guess.
               filled ! i = (if guess ! i = '''' then ''1'' else guess ! i))"
    using fillDefaults_Inr(3) [OF f] assms(2) by (auto simp: g)
  ultimately show ?thesis using p by blast
qed

theorem solveSystem_fills_empty_cells_witness:
  "req_initialGuess sampleRequest = Some ['''', ''5''] \<and>
   req_matrix sampleRequest = [[''a'', ''''], [''7'', ''x'']] \<and>
   req_constants sampleRequest = ['''', ''3''] \<and>
   req_matrix filledSample = [[''a'', ''0''], [''7'', ''x'']] \<and>
   req_constants filledSample = [''0'', ''3''] \<and>
   req_initialGuess filledSample = Some [''1'', ''5''] \<and>
   solveSystem_p000 sampleRequest =
     Inr (PostSolve ''http://localhost:8080/api/solve''
       (filledSample\<lparr>req_precision := Num 5\<rparr>)) \<and>
   solveSystem_p001a sampleRequest =
     Inr (PostSolve ''http://localhost:8080/api/solve/linear''
       (filledSample\<lparr>req_precision := Num 4, req_symbolic := Some False\<rparr>)) \<and>
   solveSystem_p001b sampleRequest =
     Inr (PostSolve ''http://localhost:8080/api/solve''
       (filledSample\<lparr>req_precision := Num 4, req_symbolic := Some False\<rparr>))"
proof -
  have g: "req_initialGuess sampleRequest = Some ['''', ''5'']"
    by (simp add: sampleRequest_def)
  have p000: "solveSystem_p000 \<in> {solveSystem_p001a, solveSystem_p001b, solveSystem_p000}"
    and p001a: "solveSystem_p001a \<in> {solveSystem_p001a, solveSystem_p001b, solveSystem_p000}"
    and p001b: "solveSystem_p001b \<in> {solveSystem_p001a, solveSystem_p001b, solveSystem_p000}"
    by simp_all
  have a: "solveSystem_p000 sampleRequest =
     Inr (PostSolve ''http://localhost:8080/api/solve''
       (filledSample\<lparr>req_precision := Num 5\<rparr>))"
    by (simp add: solveSystem_p000_def fillDefaults_def sampleRequest_def filledSample_def
        apiUrl_def Let_def)
  have b: "solveSystem_p001a sampleRequest =
     Inr (PostSolve ''http://localhost:8080/api/solve/linear''
       (filledSample\<lparr>req_precision := Num 4, req_symbolic := Some False\<rparr>))"
    by (simp add: solveSystem_p001a_def fillDefaults_def sampleRequest_def filledSample_def
        apiUrl_def isLetter_def Let_def)
  have c: "solveSystem_p001b sampleRequest =
     Inr (PostSolve ''http://localhost:8080/api/solve''
       (filledSample\<lparr>req_precision := Num 4, req_symbolic := Some False\<rparr>))"
    by (simp add: solveSystem_p001b_def fillDefaults_def sampleRequest_def filledSample_def
        apiUrl_def isLetter_def Let_def)
  from solveSystem_fills_empty_cells [OF p000 g] solveSystem_fills_empty_cells [OF p001a g]
    solveSystem_fills_empty_cells [OF p001b g] a b c g
  show ?thesis by (simp add: sampleRequest_def filledSample_def)
qed

text \<open>
  C9: in the three revisions that fill defaults, \<open>solveSystem\<close> throws on a request
  without \<open>initialGuess\<close> (it returns no observable, so no POST can follow), and it
  returns the POST exactly for the requests that carry an \<open>initialGuess\<close> array.
\<close>

theorem solveSystem_needs_initialGuess:
  "(req_initialGuess request = None \<longrightarrow>
      solveSystem_p001a request = Inl TypeError \<and>
      solveSystem_p001b request = Inl TypeError \<and>
      solveSystem_p000 request = Inl TypeError \<and>
      solveBody (solveSystem_p001a request) = None \<and>
      solveBody (solveSystem_p001b request) = None \<and>
      solveBody (solveSystem_p000 request) = None) \<and>
   (req_initialGuess request \<noteq> None \<longrightarrow>
      solveBody (solveSystem_p001a request) \<noteq> None \<and>
      solveBody (solveSystem_p001b request) \<noteq> None \<and>
      solveBody (solveSystem_p000 request) \<noteq> None)"
  by (auto simp: solveSystem_p001a_def solveSystem_p001b_def solveSystem_p000_def
      fillDefaults_def Let_def)

theorem solveSystem_needs_initialGuess_witness:
  "req_initialGuess (sampleRequest\<lparr>req_initialGuess := None\<rparr>) = None \<and>
   solveSystem_p001a (sampleRequest\<lparr>req_initialGuess := None\<rparr>) = Inl TypeError \<and>
   solveSystem_p000 (sampleRequest\<lparr>req_initialGuess := None\<rparr>) = Inl TypeError \<and>
   req_initialGuess sampleRequest \<noteq> None \<and>
   solveBody (solveSystem_p001a sampleRequest) \<noteq> None"
  using solveSystem_needs_initialGuess [of "sampleRequest\<lparr>req_initialGuess := None\<rparr>"]
    solveSystem_needs_initialGuess [of sampleRequest]
  by (simp add: sampleRequest_def)

lemma scanCells_nonempty:
  "cells \<noteq> [] \<Longrightarrow> scanCells f cells = Some (list_all testSingleLetter cells)"
proof (induction cells arbitrary: f)
  case Nil
  then show ?case by simp
next
  case (Cons c cs)
  show ?case
  proof (cases cs)
    case Nil
    then show ?thesis by simp
  next
    case (Cons d ds)
    with Cons.IH [of "Some True"] show ?thesis by simp
  qed
qed

lemma scanRows_append:
  "scanRows f (rows @ [row]) = scanCells (scanRows f rows) row"
  by (induction rows arbitrary: f) simp_all

lemma scanRows_all_empty:
  "filter (\<lambda>row. row \<noteq> []) rows = [] \<Longrightarrow> scanRows f rows = f"
  by (induction rows arbitrary: f) (simp_all split: if_splits)

lemma scanRows_last:
  "filter (\<lambda>row. row \<noteq> []) rows \<noteq> [] \<Longrightarrow>
   scanRows f rows =
     Some (list_all testSingleLetter (last (filter (\<lambda>row. row \<noteq> []) rows)))"
proof (induction rows rule: rev_induct)
  case Nil
  then show ?case by simp
next
  case (snoc row rows)
  show ?case
  proof (cases "row = []")
    case True
    with snoc show ?thesis by (simp add: scanRows_append)
  next
    case False
    then show ?thesis by (simp add: scanRows_append scanCells_nonempty)
  qed
qed

text \<open>
  What the loop nest computes: the verdict of the inner loop on the last non-empty row,
  whatever the rows before it hold.
\<close>

lemma scanRows_decided:
  "scanRows f rows =
     (if filter (\<lambda>row. row \<noteq> []) rows = [] then f
      else Some (list_all testSingleLetter (last (filter (\<lambda>row. row \<noteq> []) rows))))"
  by (simp add: scanRows_all_empty scanRows_last)

lemma solveSystem_symbolic_flag:
  assumes "solveSystem \<in> {solveSystem_p001a, solveSystem_p001b}"
    and "req_initialGuess request = Some guess"
  shows "\<exists>u sent. solveSystem request = Inr (PostSolve u sent) \<and>
           req_symbolic sent = scanRows (req_symbolic request) (req_matrix sent)"
  using assms
  by (auto simp: solveSystem_p001a_def solveSystem_p001b_def fillDefaults_def Let_def)

text \<open>
  C2: the source announces the loop nest as "Setting a flag if the matrix is all
  symbols", and the claim says the flag is set to true only if every matrix cell
  scanned so far is a single letter. The \<open>break\<close> leaves the inner loop only, so a
  later row of letters sets the flag again: on the matrix \<open>[["1","c"],["a","b"]]\<close>
  both part_001 revisions scan the cell \<open>"1"\<close>, which is no letter, and post the
  flag \<open>true\<close>. With the same rows in the other order they post \<open>false\<close>.
\<close>

theorem symbolic_true_after_scanned_digit:
  "req_matrix digitThenLetters = [[''1'', ''c''], [''a'', ''b'']] \<and>
   \<not> testSingleLetter ''1'' \<and>
   solveSystem_p001a digitThenLetters =
     Inr (PostSolve ''http://localhost:8080/api/solve/linear''
       (filledSample\<lparr>req_matrix := [[''1'', ''c''], [''a'', ''b'']],
          req_precision := Num 4, req_symbolic := Some True\<rparr>)) \<and>
   solveSystem_p001b digitThenLetters =
     Inr (PostSolve ''http://localhost:8080/api/solve''
       (filledSample\<lparr>req_matrix := [[''1'', ''c''], [''a'', ''b'']],
          req_precision := Num 4, req_symbolic := Some True\<rparr>)) \<and>
   req_matrix lettersThenDigit = rev (req_matrix digitThenLetters) \<and>
   solveSystem_p001a lettersThenDigit =
     Inr (PostSolve ''http://localhost:8080/api/solve/linear''
       (filledSample\<lparr>req_matrix := [[''a'', ''b''], [''1'', ''c'']],
          req_precision := Num 4, req_symbolic := Some False\<rparr>)) \<and>
   solveSystem_p001b lettersThenDigit =
     Inr (PostSolve ''http://localhost:8080/api/solve''
       (filledSample\<lparr>req_matrix := [[''a'', ''b''], [''1'', ''c'']],
          req_precision := Num 4, req_symbolic := Some False\<rparr>))"
  by (simp add: solveSystem_p001a_def solveSystem_p001b_def fillDefaults_def
      digitThenLetters_def lettersThenDigit_def sampleRequest_def filledSample_def
      apiUrl_def isLetter_def Let_def)

lemma solveSystem_posts_precision:
  assumes "req_initialGuess request = Some guess"
  shows "\<exists>u sent. solveSystem_p001a request = Inr (PostSolve u sent) \<and>
           req_precision sent =
             (case req_precision request of Num n \<Rightarrow> Num n | Null \<Rightarrow> Num 4
              | Undefined \<Rightarrow> Num 4)"
    and "\<exists>u sent. solveSystem_p001b request = Inr (PostSolve u sent) \<and>
           req_precision sent =
             (case req_precision request of Num n \<Rightarrow> Num n | Null \<Rightarrow> Num 4
              | Undefined \<Rightarrow> Num 4)"
    and "\<exists>u sent. solveSystem_p000 request = Inr (PostSolve u sent) \<and>
           req_precision sent =
             (case req_precision request of Num n \<Rightarrow> Num n | Null \<Rightarrow> Num 5
              | Undefined \<Rightarrow> Undefined)"
  using assms
  by (auto simp: solveSystem_p001a_def solveSystem_p001b_def solveSystem_p000_def
      fillDefaults_def Let_def split: jsnumber.splits)

text \<open>
  C5: a request whose precision is missing, that is \<open>null\<close>, the value the form holds
  once the precision field is emptied, is posted with the default precision: 4 in the
  part_001 revisions, 5 in part_000. A request that carries a number is posted with
  that number.
\<close>

theorem precision_default_filled:
  assumes "req_initialGuess request = Some guess"
  shows "(\<exists>u sent. solveSystem_p001a request = Inr (PostSolve u sent) \<and>
            (req_precision request = Null \<longrightarrow> req_precision sent = Num 4) \<and>
            (\<forall>n. req_precision request = Num n \<longrightarrow> req_precision sent = Num n)) \<and>
         (\<exists>u sent. solveSystem_p001b request = Inr (PostSolve u sent) \<and>
            (req_precision request = Null \<longrightarrow> req_precision sent = Num 4) \<and>
            (\<forall>n. req_precision request = Num n \<longrightarrow> req_precision sent = Num n)) \<and>
         (\<exists>u sent. solveSystem_p000 request = Inr (PostSolve u sent) \<and>
            (req_precision request = Null \<longrightarrow> req_precision sent = Num 5) \<and>
            (\<forall>n. req_precision request = Num n \<longrightarrow> req_precision sent = Num n))"
proof -
  from solveSystem_posts_precision(1) [OF assms] obtain u1 sent1 where
    a: "solveSystem_p001a request = Inr (PostSolve u1 sent1)"
      "req_precision sent1 =
         (case req_precision request of Num n \<Rightarrow> Num n | Null \<Rightarrow> Num 4 | Undefined \<Rightarrow> Num 4)"
    by blast
  from solveSystem_posts_precision(2) [OF assms] obtain u2 sent2 where
    b: "solveSystem_p001b request = Inr (PostSolve u2 sent2)"
      "req_precision sent2 =
         (case req_precision request of Num n \<Rightarrow> Num n | Null \<Rightarrow> Num 4 | Undefined \<Rightarrow> Num 4)"
    by blast
  from solveSystem_posts_precision(3) [OF assms] obtain u3 sent3 where
    c: "solveSystem_p000 request = Inr (PostSolve u3 sent3)"
      "req_precision sent3 =
         (case req_precision request of Num n \<Rightarrow> Num n | Null \<Rightarrow> Num 5
          | Undefined \<Rightarrow> Undefined)"
    by blast
  from a b c show ?thesis by simp
qed

theorem precision_default_filled_witness:
  "req_initialGuess sampleRequest = Some ['''', ''5''] \<and>
   req_precision sampleRequest = Null \<and>
   solveSystem_p001a sampleRequest =
     Inr (PostSolve ''http://localhost:8080/api/solve/linear''
       (filledSample\<lparr>req_precision := Num 4, req_symbolic := Some False\<rparr>)) \<and>
   solveSystem_p001b sampleRequest =
     Inr (PostSolve ''http://localhost:8080/api/solve''
       (filledSample\<lparr>req_precision := Num 4, req_symbolic := Some False\<rparr>)) \<and>
   solveSystem_p000 sampleRequest =
     Inr (PostSolve ''http://localhost:8080/api/solve''
       (filledSample\<lparr>req_precision := Num 5\<rparr>)) \<and>
   solveSystem_p001a (sampleRequest\<lparr>req_precision := Num 3\<rparr>) =
     Inr (PostSolve ''http://localhost:8080/api/solve/linear''
       (filledSample\<lparr>req_precision := Num 3, req_symbolic := Some False\<rparr>)) \<and>
   solveSystem_p001b (sampleRequest\<lparr>req_precision := Num 3\<rparr>) =
     Inr (PostSolve ''http://localhost:8080/api/solve''
       (filledSample\<lparr>req_precision := Num 3, req_symbolic := Some False\<rparr>)) \<and>
   solveSystem_p000 (sampleRequest\<lparr>req_precision := Num 3\<rparr>) =
     Inr (PostSolve ''http://localhost:8080/api/solve''
       (filledSample\<lparr>req_precision := Num 3\<rparr>))"
proof -
  have g: "req_initialGuess sampleRequest = Some ['''', ''5'']"
    "req_initialGuess (sampleRequest\<lparr>req_precision := Num 3\<rparr>) = Some ['''', ''5'']"
    by (simp_all add: sampleRequest_def)
  have p: "req_precision sampleRequest = Null"
    by (simp add: sampleRequest_def)
  have run: "solveSystem_p001a sampleRequest =
     Inr (PostSolve ''http://localhost:8080/api/solve/linear''
       (filledSample\<lparr>req_precision := Num 4, req_symbolic := Some False\<rparr>))"
    "solveSystem_p001b sampleRequest =
     Inr (PostSolve ''http://localhost:8080/api/solve''
       (filledSample\<lparr>req_precision := Num 4, req_symbolic := Some False\<rparr>))"
    "solveSystem_p000 sampleRequest =
     Inr (PostSolve ''http://localhost:8080/api/solve''
       (filledSample\<lparr>req_precision := Num 5\<rparr>))"
    "solveSystem_p001a (sampleRequest\<lparr>req_precision := Num 3\<rparr>) =
     Inr (PostSolve ''http://localhost:8080/api/solve/linear''
       (filledSample\<lparr>req_precision := Num 3, req_symbolic := Some False\<rparr>))"
    "solveSystem_p001b (sampleRequest\<lparr>req_precision := Num 3\<rparr>) =
     Inr (PostSolve ''http://localhost:8080/api/solve''
       (filledSample\<lparr>req_precision := Num 3, req_symbolic := Some False\<rparr>))"
    "solveSystem_p000 (sampleRequest\<lparr>req_precision := Num 3\<rparr>) =
     Inr (PostSolve ''http://localhost:8080/api/solve''
       (filledSample\<lparr>req_precision := Num 3\<rparr>))"
    by (simp_all add: solveSystem_p001a_def solveSystem_p001b_def solveSystem_p000_def
        fillDefaults_def sampleRequest_def filledSample_def apiUrl_def isLetter_def Let_def)
  from precision_default_filled [OF g(1)] precision_default_filled [OF g(2)] g(1) p run
  show ?thesis by simp
qed

section \<open>Properties of the linear-system form\<close>

lemma stopSimulation_shape:
  "matrix (fst (stopSimulation s w)) = matrix s \<and>
   numEquations (fst (stopSimulation s w)) = numEquations s \<and>
   constants (fst (stopSimulation s w)) = constants s \<and>
   initialGuess (fst (stopSimulation s w)) = initialGuess s"
  by (simp add: stopSimulation_def Let_def split: option.splits)

lemma initializeMatrix_shape:
  "2 \<le> numEquations s \<Longrightarrow> shapeInvariant (initializeMatrix s)"
  by (simp add: shapeInvariant_def initializeMatrix_def Let_def)

lemma addEquation_shape:
  "shapeInvariant s \<Longrightarrow> shapeInvariant (addEquation s)"
  by (auto simp: shapeInvariant_def addEquation_def Let_def)

lemma removeEquation_shape:
  assumes "shapeInvariant s"
  shows "shapeInvariant (removeEquation s)"
proof (cases "numEquations s > 2")
  case False
  with assms show ?thesis by (simp add: removeEquation_def)
next
  case True
  have rows: "length row = numEquations s - 1"
    if "row \<in> set (butlast (map butlast (matrix s)))" for row
  proof -
    from that have "row \<in> set (map butlast (matrix s))" by (rule in_set_butlastD)
    then obtain r where "r \<in> set (matrix s)" and "row = butlast r" by auto
    with assms show ?thesis by (simp add: shapeInvariant_def)
  qed
  from assms True rows show ?thesis
    by (simp add: shapeInvariant_def removeEquation_def Let_def)
qed

lemma clearAll_shape:
  "shapeInvariant s \<Longrightarrow> shapeInvariant (fst (clearAll s w))"
proof -
  assume inv: "shapeInvariant s"
  then have "2 \<le> numEquations s" by (simp add: shapeInvariant_def)
  then have "shapeInvariant (initializeMatrix s)" by (rule initializeMatrix_shape)
  then show ?thesis
    by (simp add: clearAll_def Let_def shapeInvariant_def stopSimulation_shape)
qed

text \<open>
  C10: the shape of the linear-system form. \<open>ngOnInit\<close> establishes it on the fields
  as the class initialises them (three equations), \<open>initializeMatrix\<close> establishes it
  for any equation count of at least two, and \<open>addEquation\<close>, \<open>removeEquation\<close> and
  \<open>clearAll\<close> preserve it; \<open>removeEquation\<close> changes nothing once only two equations
  are left.
\<close>

theorem form_shape_invariant:
  "shapeInvariant (ngOnInit newLinearSystemSolver) \<and>
   (2 \<le> numEquations s \<longrightarrow> shapeInvariant (initializeMatrix s)) \<and>
   (shapeInvariant s \<longrightarrow>
      shapeInvariant (addEquation s) \<and>
      shapeInvariant (removeEquation s) \<and>
      shapeInvariant (fst (clearAll s w))) \<and>
   (numEquations s \<le> 2 \<longrightarrow> removeEquation s = s)"
proof -
  have "shapeInvariant (ngOnInit newLinearSystemSolver)"
    unfolding ngOnInit_def
    by (rule initializeMatrix_shape) (simp add: newLinearSystemSolver_def)
  moreover have "numEquations s \<le> 2 \<longrightarrow> removeEquation s = s"
    by (simp add: removeEquation_def)
  ultimately show ?thesis
    using initializeMatrix_shape addEquation_shape removeEquation_shape clearAll_shape
    by blast
qed

theorem form_shape_invariant_witness:
  "shapeInvariant (ngOnInit newLinearSystemSolver) \<and>
   numEquations (ngOnInit newLinearSystemSolver) = 3 \<and>
   shapeInvariant (addEquation (ngOnInit newLinearSystemSolver)) \<and>
   numEquations (addEquation (ngOnInit newLinearSystemSolver)) = 4 \<and>
   shapeInvariant (removeEquation (ngOnInit newLinearSystemSolver)) \<and>
   numEquations (removeEquation (ngOnInit newLinearSystemSolver)) = 2 \<and>
   removeEquation (removeEquation (ngOnInit newLinearSystemSolver)) =
     removeEquation (ngOnInit newLinearSystemSolver) \<and>
   shapeInvariant (fst (clearAll (addEquation (ngOnInit newLinearSystemSolver)) freshBrowser))"
proof -
  have three: "numEquations (ngOnInit newLinearSystemSolver) = 3"
    by (simp add: ngOnInit_def initializeMatrix_def newLinearSystemSolver_def Let_def)
  have four: "numEquations (addEquation (ngOnInit newLinearSystemSolver)) = 4"
    by (simp add: addEquation_def ngOnInit_def initializeMatrix_def
        newLinearSystemSolver_def Let_def)
  have two: "numEquations (removeEquation (ngOnInit newLinearSystemSolver)) = 2"
    by (simp add: removeEquation_def ngOnInit_def initializeMatrix_def
        newLinearSystemSolver_def Let_def)
  from form_shape_invariant [of "ngOnInit newLinearSystemSolver" freshBrowser]
    form_shape_invariant [of "removeEquation (ngOnInit newLinearSystemSolver)" freshBrowser]
    form_shape_invariant [of "addEquation (ngOnInit newLinearSystemSolver)" freshBrowser]
    three four two
  show ?thesis by simp
qed

section \<open>Properties of step playback\<close>

lemma stopSimulation_view:
  "steps (fst (stopSimulation s w)) = steps s \<and>
   currentStep (fst (stopSimulation s w)) = currentStep s \<and>
   \<not> isPlaying (fst (stopSimulation s w)) \<and>
   simulationInterval (fst (stopSimulation s w)) = None \<and>
   loading (fst (stopSimulation s w)) = loading s \<and>
   errorMessage (fst (stopSimulation s w)) = errorMessage s \<and>
   outbox (snd (stopSimulation s w)) = outbox w"
  by (simp add: stopSimulation_def clearInterval_def Let_def split: option.splits)

lemma stopSimulation_clears:
  "simulationInterval s = Some h \<Longrightarrow> timers (snd (stopSimulation s w)) h = None"
  by (simp add: stopSimulation_def clearInterval_def Let_def)

lemma startSimulation_view:
  "steps (fst (startSimulation s w)) = steps s \<and>
   currentStep (fst (startSimulation s w)) =
     (if currentStep s \<ge> int (length (steps s)) - 1 then 0 else currentStep s)"
  by (simp add: startSimulation_def setInterval_def Let_def)

lemma playback_in_range:
  assumes "0 \<le> currentStep s" and "currentStep s < int (length (steps s))"
  shows "steps (fst (playback op s w)) = steps s \<and>
         0 \<le> currentStep (fst (playback op s w)) \<and>
         currentStep (fst (playback op s w)) < int (length (steps s))"
proof (cases op)
  case PreviousStep
  with assms show ?thesis by (auto simp: previousStep_def)
next
  case NextStep
  with assms show ?thesis by (auto simp: nextStep_def stopSimulation_view)
next
  case ToggleSimulation
  with assms show ?thesis
    by (auto simp: toggleSimulation_def stopSimulation_view startSimulation_view)
next
  case StartSimulation
  with assms show ?thesis by (auto simp: startSimulation_view)
next
  case StopSimulation
  with assms show ?thesis by (auto simp: stopSimulation_view)
next
  case OnSpeedChange
  obtain s1 w1 where st: "stopSimulation s w = (s1, w1)" by (cases "stopSimulation s w")
  with stopSimulation_view [of s w] have "steps s1 = steps s" "currentStep s1 = currentStep s"
    by simp_all
  with assms OnSpeedChange st show ?thesis
    by (auto simp: onSpeedChange_def startSimulation_view)
next
  case (Tick h)
  with assms show ?thesis
    by (auto simp: tick_def nextStep_def stopSimulation_view split: option.splits)
qed

text \<open>
  C3: with the step index in range, no playback operation (the timer's callback
  included) changes the steps or takes the index out of range. \<open>nextStep\<close> adds one to
  an index strictly below \<open>steps.length - 1\<close> and changes nothing else; at or past the
  last step it leaves the index alone, sets \<open>isPlaying\<close> to false, forgets the timer
  handle and clears that timer.
\<close>

theorem playback_never_passes_last_step:
  "(0 \<le> currentStep s \<and> currentStep s < int (length (steps s)) \<longrightarrow>
      (\<forall>op. steps (fst (playback op s w)) = steps s \<and>
            0 \<le> currentStep (fst (playback op s w)) \<and>
            currentStep (fst (playback op s w)) < int (length (steps s)))) \<and>
   (currentStep s < int (length (steps s)) - 1 \<longrightarrow>
      nextStep s w = (s\<lparr>currentStep := currentStep s + 1\<rparr>, w)) \<and>
   (int (length (steps s)) - 1 \<le> currentStep s \<longrightarrow>
      steps (fst (nextStep s w)) = steps s \<and>
      currentStep (fst (nextStep s w)) = currentStep s \<and>
      \<not> isPlaying (fst (nextStep s w)) \<and>
      simulationInterval (fst (nextStep s w)) = None \<and>
      (\<forall>h. simulationInterval s = Some h \<longrightarrow> timers (snd (nextStep s w)) h = None))"
proof -
  have "currentStep s < int (length (steps s)) - 1 \<longrightarrow>
      nextStep s w = (s\<lparr>currentStep := currentStep s + 1\<rparr>, w)"
    by (simp add: nextStep_def)
  moreover have "int (length (steps s)) - 1 \<le> currentStep s \<longrightarrow>
      steps (fst (nextStep s w)) = steps s \<and>
      currentStep (fst (nextStep s w)) = currentStep s \<and>
      \<not> isPlaying (fst (nextStep s w)) \<and>
      simulationInterval (fst (nextStep s w)) = None \<and>
      (\<forall>h. simulationInterval s = Some h \<longrightarrow> timers (snd (nextStep s w)) h = None)"
    by (simp add: nextStep_def stopSimulation_view stopSimulation_clears)
  ultimately show ?thesis using playback_in_range [of s _ w] by blast
qed

theorem playback_never_passes_last_step_witness:
  "0 \<le> currentStep atLastStep \<and>
   currentStep atLastStep < int (length (steps atLastStep)) \<and>
   int (length (steps atLastStep)) - 1 \<le> currentStep atLastStep \<and>
   simulationInterval atLastStep = Some 1 \<and>
   timers playingBrowser 1 = Some 1200 \<and>
   currentStep (fst (playback (Tick 1) atLastStep playingBrowser)) = 2 \<and>
   currentStep (fst (nextStep atLastStep playingBrowser)) = 2 \<and>
   \<not> isPlaying (fst (nextStep atLastStep playingBrowser)) \<and>
   simulationInterval (fst (nextStep atLastStep playingBrowser)) = None \<and>
   timers (snd (nextStep atLastStep playingBrowser)) 1 = None \<and>
   currentStep (atLastStep\<lparr>currentStep := 1\<rparr>) < int (length (steps atLastStep)) - 1 \<and>
   nextStep (atLastStep\<lparr>currentStep := 1\<rparr>) playingBrowser =
     (atLastStep\<lparr>currentStep := 2\<rparr>, playingBrowser)"
proof -
  have a: "currentStep atLastStep = 2" "length (steps atLastStep) = 3"
    "simulationInterval atLastStep = Some 1"
    by (simp_all add: atLastStep_def)
  have b: "timers playingBrowser 1 = Some 1200"
    by (simp add: playingBrowser_def)
  have c: "currentStep (atLastStep\<lparr>currentStep := 1\<rparr>) = 1"
    "steps (atLastStep\<lparr>currentStep := 1\<rparr>) = steps atLastStep"
    by simp_all
  from playback_never_passes_last_step [of atLastStep playingBrowser]
    playback_never_passes_last_step [of "atLastStep\<lparr>currentStep := 1\<rparr>" playingBrowser]
    a b c
  show ?thesis by (simp add: tick_def)
qed

section \<open>Properties of the error handlers\<close>

lemma error_handlers_settle:
  "\<not> loading (solveError error s) \<and> errorMessage (solveError error s) \<noteq> '''' \<and>
   \<not> loading (rf_solveError error t) \<and> errorMessage (rf_solveError error t) \<noteq> ''''"
  by (simp add: solveError_def rf_solveError_def orElse_def Let_def split: option.splits)

lemma rf_solveError_message:
  "errorMessage (rf_solveError error t) =
     (case errorOf error of
        Some e \<Rightarrow> if e \<noteq> '''' then e
                  else (case messageOf error of
                          Some m \<Rightarrow> if m \<noteq> '''' then m else ''An error occurred while solving''
                        | None \<Rightarrow> ''An error occurred while solving'')
      | None \<Rightarrow> (case messageOf error of
                   Some m \<Rightarrow> if m \<noteq> '''' then m else ''An error occurred while solving''
                 | None \<Rightarrow> ''An error occurred while solving''))"
  by (simp add: rf_solveError_def orElse_def Let_def split: option.splits)

lemma solveError_message:
  "errorMessage (solveError error s) =
     (case messageOf error of
        Some m \<Rightarrow> if m \<noteq> '''' then m else ''An error occurred''
      | None \<Rightarrow> ''An error occurred'')"
  by (simp add: solveError_def orElse_def Let_def split: option.splits)

text \<open>
  C4: both error handlers leave \<open>loading\<close> false and a non-empty message
  (\<open>error_handlers_settle\<close>), and the root finder reads the body's \<open>error\<close>, then its
  \<open>message\<close>, then falls back (\<open>rf_solveError_message\<close>). The handler of the linear
  solver reads \<open>message\<close> only (\<open>solveError_message\<close>): on an error body that carries
  an \<open>error\<close> string and no \<open>message\<close> it shows the fixed fallback instead of that
  string, where the root finder shows the string.
\<close>

theorem solveError_drops_error_field:
  "errorMessage (solveError singularMatrixError s) = ''An error occurred'' \<and>
   \<not> loading (solveError singularMatrixError s) \<and>
   errorMessage (rf_solveError singularMatrixError t) = ''Matrix is singular'' \<and>
   \<not> loading (rf_solveError singularMatrixError t)"
  by (simp add: solveError_def rf_solveError_def orElse_def errorOf_def messageOf_def
      singularMatrixError_def Let_def)

section \<open>Properties of ThemeService\<close>

lemma classList_dark:
  "(''dark'' \<in> set (classList (applyTheme isDark w))) = isDark"
  by (simp add: applyTheme_def classList_add_def classList_remove_def)

lemma classList_others:
  "c \<noteq> ''dark'' \<Longrightarrow>
   (c \<in> set (classList (applyTheme isDark w))) = (c \<in> set (classList w))"
  by (auto simp: applyTheme_def classList_add_def classList_remove_def)

lemma applyTheme_storage: "localStorage (applyTheme isDark w) = localStorage w"
  by (simp add: applyTheme_def)

lemma applyTheme_prefers: "prefersDark (applyTheme isDark w) = prefersDark w"
  by (simp add: applyTheme_def)

text \<open>
  C7: \<open>toggleDarkMode\<close> sets the flag to its opposite, stores the string form of the
  new value under \<open>"darkMode"\<close>, and leaves the class \<open>"dark"\<close> on the root element
  exactly when the new value is true; other classes and other keys are untouched.
\<close>

theorem toggleDarkMode_writes_opposite:
  "darkMode (fst (toggleDarkMode t w)) = (\<not> darkMode t) \<and>
   localStorage (snd (toggleDarkMode t w)) ''darkMode'' =
     Some (if darkMode t then ''false'' else ''true'') \<and>
   (''dark'' \<in> set (classList (snd (toggleDarkMode t w)))) = (\<not> darkMode t) \<and>
   (\<forall>c. c \<noteq> ''dark'' \<longrightarrow>
      (c \<in> set (classList (snd (toggleDarkMode t w)))) = (c \<in> set (classList w))) \<and>
   (\<forall>k. k \<noteq> ''darkMode'' \<longrightarrow>
      localStorage (snd (toggleDarkMode t w)) k = localStorage w k)"
  by (simp add: toggleDarkMode_def Let_def stringOfBool_def classList_dark classList_others
      applyTheme_storage)

theorem toggleDarkMode_writes_opposite_witness:
  "toggleDarkMode lightTheme pageBrowser =
     (\<lparr>darkMode = True\<rparr>,
      pageBrowser\<lparr>classList := [''app'', ''dark''],
        localStorage := [''darkMode'' \<mapsto> ''true'']\<rparr>) \<and>
   ''app'' \<noteq> ''dark'' \<and>
   ''app'' \<in> set (classList (snd (toggleDarkMode lightTheme pageBrowser))) \<and>
   ''dark'' \<in> set (classList (snd (toggleDarkMode lightTheme pageBrowser))) \<and>
   ''theme'' \<noteq> ''darkMode'' \<and>
   localStorage (snd (toggleDarkMode lightTheme pageBrowser)) ''theme'' = None"
proof -
  have run: "toggleDarkMode lightTheme pageBrowser =
     (\<lparr>darkMode = True\<rparr>,
      pageBrowser\<lparr>classList := [''app'', ''dark''],
        localStorage := [''darkMode'' \<mapsto> ''true'']\<rparr>)"
    by (simp add: toggleDarkMode_def applyTheme_def classList_add_def stringOfBool_def
        lightTheme_def pageBrowser_def freshBrowser_def Let_def)
  have before: "''app'' \<in> set (classList pageBrowser)" "localStorage pageBrowser ''theme'' = None"
    "\<not> darkMode lightTheme"
    by (simp_all add: pageBrowser_def freshBrowser_def lightTheme_def)
  from toggleDarkMode_writes_opposite [of lightTheme pageBrowser] run before
  show ?thesis by simp
qed

lemma toggle_then_load:
  "getInitialTheme (snd (toggleDarkMode t w)) = darkMode (fst (toggleDarkMode t w))"
  by (simp add: toggleDarkMode_def getInitialTheme_def stringOfBool_def Let_def)

lemma toggles_then_load:
  "0 < n \<Longrightarrow> ((\<lambda>(t, w). toggleDarkMode t w) ^^ n) (t, w) = (t', w') \<Longrightarrow>
   getInitialTheme w' = darkMode t'"
proof (cases n)
  case 0
  assume "0 < n"
  with 0 show ?thesis by simp
next
  case (Suc m)
  assume run: "((\<lambda>(t, w). toggleDarkMode t w) ^^ n) (t, w) = (t', w')"
  obtain t1 w1 where mid: "((\<lambda>(t, w). toggleDarkMode t w) ^^ m) (t, w) = (t1, w1)"
    by (cases "((\<lambda>(t, w). toggleDarkMode t w) ^^ m) (t, w)")
  with run Suc have "toggleDarkMode t1 w1 = (t', w')" by simp
  with toggle_then_load [of t1 w1] show ?thesis by simp
qed

text \<open>
  C6: whatever the local storage holds, \<open>getInitialTheme\<close> is the comparison of the
  string stored under \<open>"darkMode"\<close> with \<open>"true"\<close>, and the system preference when
  nothing is stored there. After any positive number of toggles it is the flag that the
  last toggle wrote.
\<close>

theorem getInitialTheme_reads_last_write:
  "(\<forall>saved. localStorage w ''darkMode'' = Some saved \<longrightarrow>
      getInitialTheme w = (saved = ''true'')) \<and>
   (localStorage w ''darkMode'' = None \<longrightarrow> getInitialTheme w = prefersDark w) \<and>
   (\<forall>n t t' w'. 0 < n \<and> ((\<lambda>(t, w). toggleDarkMode t w) ^^ n) (t, w) = (t', w') \<longrightarrow>
      getInitialTheme w' = darkMode t')"
  using toggles_then_load by (auto simp: getInitialTheme_def)

theorem getInitialTheme_reads_last_write_witness:
  "localStorage savedDark ''darkMode'' = Some ''true'' \<and> getInitialTheme savedDark \<and>
   localStorage savedOther ''darkMode'' = Some ''yes'' \<and> \<not> getInitialTheme savedOther \<and>
   localStorage prefersDarkBrowser ''darkMode'' = None \<and>
   getInitialTheme prefersDarkBrowser \<and>
   ((\<lambda>(t, w). toggleDarkMode t w) ^^ 2) (lightTheme, prefersDarkBrowser) =
     (\<lparr>darkMode = False\<rparr>,
      prefersDarkBrowser\<lparr>classList := [], localStorage := [''darkMode'' \<mapsto> ''false'']\<rparr>) \<and>
   \<not> getInitialTheme
       (prefersDarkBrowser\<lparr>classList := [], localStorage := [''darkMode'' \<mapsto> ''false'']\<rparr>)"
proof -
  have a: "localStorage savedDark ''darkMode'' = Some ''true''"
    "localStorage savedOther ''darkMode'' = Some ''yes''"
    "localStorage prefersDarkBrowser ''darkMode'' = None"
    "prefersDark prefersDarkBrowser"
    by (simp_all add: savedDark_def savedOther_def prefersDarkBrowser_def freshBrowser_def)
  have run: "((\<lambda>(t, w). toggleDarkMode t w) ^^ 2) (lightTheme, prefersDarkBrowser) =
     (\<lparr>darkMode = False\<rparr>,
      prefersDarkBrowser\<lparr>classList := [], localStorage := [''darkMode'' \<mapsto> ''false'']\<rparr>)"
    by (simp add: numeral_2_eq_2 toggleDarkMode_def applyTheme_def classList_add_def
        classList_remove_def stringOfBool_def lightTheme_def prefersDarkBrowser_def
        freshBrowser_def Let_def)
  have pos: "(0::nat) < 2" by simp
  from getInitialTheme_reads_last_write [of prefersDarkBrowser] pos run
  have last: "getInitialTheme
       (prefersDarkBrowser\<lparr>classList := [], localStorage := [''darkMode'' \<mapsto> ''false'']\<rparr>) =
     darkMode \<lparr>darkMode = False\<rparr>"
    by blast
  from getInitialTheme_reads_last_write [of savedDark]
    getInitialTheme_reads_last_write [of savedOther]
    getInitialTheme_reads_last_write [of prefersDarkBrowser] a run last
  show ?thesis by simp
qed

section \<open>Properties of handleSolve\<close>

lemma solveSystem_returns:
  assumes "solveSystem \<in>
      {solveSystem_p001a, solveSystem_p001b, solveSystem_p000, solveSystem_p001c}"
    and "req_initialGuess request = Some guess"
  shows "\<exists>post. solveSystem request = Inr post"
  using assms
  by (auto simp: solveSystem_p001a_def solveSystem_p001b_def solveSystem_p000_def
      solveSystem_p001c_def fillDefaults_def Let_def)

lemma handleSolve_posts:
  assumes "solveSystem \<in>
      {solveSystem_p001a, solveSystem_p001b, solveSystem_p000, solveSystem_p001c}"
  shows "\<exists>post s' w'. handleSolve solveSystem s w = (None, s', w') \<and>
           outbox w' = outbox w @ [post] \<and> loading s'"
proof -
  let ?s0 = "s\<lparr>loading := True, result := None, steps := [], currentStep := 0\<rparr>"
  obtain s1 w1 where st: "stopSimulation ?s0 w = (s1, w1)"
    by (cases "stopSimulation ?s0 w")
  with stopSimulation_view [of ?s0 w] have keep: "loading s1" "outbox w1 = outbox w"
    by simp_all
  let ?payload = "\<lparr>req_method = lin_method s1, req_matrix = matrix s1,
             req_constants = constants s1,
             req_precision = precision s1, req_scaling = Some (useScaling s1),
             req_stepByStep = Some (stepByStep s1), req_luForm = Some (luForm s1),
             req_initialGuess = Some (initialGuess s1), req_stoppingCondition = None,
             req_maxIterations = Some (maxIterations s1),
             req_tolerance = Some (tolerance s1), req_symbolic = None\<rparr>"
  from solveSystem_returns [OF assms, of ?payload] obtain post
    where "solveSystem ?payload = Inr post" by auto
  with st keep show ?thesis by (simp add: handleSolve_def Let_def)
qed

lemma rf_handleSolve_posts:
  "\<exists>post t' w'. rf_handleSolve t w = (None, t', w') \<and>
           outbox w' = outbox w @ [post] \<and> loading t'"
proof -
  let ?t0 = "t\<lparr>loading := True, rf_result := None, steps := [], currentStep := 0,
                errorMessage := ''''\<rparr>"
  obtain t1 w1 where st: "stopSimulation ?t0 w = (t1, w1)"
    by (cases "stopSimulation ?t0 w")
  with stopSimulation_view [of ?t0 w] have keep: "loading t1" "outbox w1 = outbox w"
    by simp_all
  with st show ?thesis by (simp add: rf_handleSolve_def solveRootFinding_def Let_def)
qed

lemma handleSolve_forgets_loading:
  "handleSolve solveSystem (s\<lparr>loading := True\<rparr>) w =
     handleSolve solveSystem (s\<lparr>loading := False\<rparr>) w"
  by (simp add: handleSolve_def)

lemma rf_handleSolve_forgets_loading:
  "rf_handleSolve (t\<lparr>loading := True\<rparr>) w = rf_handleSolve (t\<lparr>loading := False\<rparr>) w"
  by (simp add: rf_handleSolve_def)

lemma handlers_reset_loading:
  "\<not> loading (solveNext response s) \<and> \<not> loading (solveError error s) \<and>
   \<not> loading (rf_solveNext answer t) \<and> \<not> loading (rf_solveError error t)"
  by (simp add: solveNext_def solveError_def rf_solveNext_def rf_solveError_def Let_def
      split: option.splits)

text \<open>
  C8, as amended: \<open>handleSolve\<close> never reads \<open>loading\<close>. In both components, from any
  state, it sets \<open>loading\<close> and issues one more POST, and its outcome is the same
  whether \<open>loading\<close> was true or false when it was called; the \<open>next\<close> and \<open>error\<close>
  handlers set \<open>loading\<close> back to false.
\<close>

theorem handleSolve_posts_whatever_loading:
  assumes "solveSystem \<in>
      {solveSystem_p001a, solveSystem_p001b, solveSystem_p000, solveSystem_p001c}"
  shows "(\<exists>post s' w'. handleSolve solveSystem s w = (None, s', w') \<and>
            outbox w' = outbox w @ [post] \<and> loading s') \<and>
         handleSolve solveSystem (s\<lparr>loading := True\<rparr>) w =
           handleSolve solveSystem (s\<lparr>loading := False\<rparr>) w \<and>
         (\<exists>post t' w'. rf_handleSolve t w = (None, t', w') \<and>
            outbox w' = outbox w @ [post] \<and> loading t') \<and>
         rf_handleSolve (t\<lparr>loading := True\<rparr>) w =
           rf_handleSolve (t\<lparr>loading := False\<rparr>) w \<and>
         \<not> loading (solveNext response s) \<and> \<not> loading (solveError error s) \<and>
         \<not> loading (rf_solveNext answer t) \<and> \<not> loading (rf_solveError error t)"
  using handleSolve_posts [OF assms, of s w] rf_handleSolve_posts [of t w]
    handleSolve_forgets_loading [of solveSystem s w] rf_handleSolve_forgets_loading [of t w]
    handlers_reset_loading [of response s error answer t]
  by simp

theorem handleSolve_posts_whatever_loading_witness:
  "solveSystem_p001a \<in>
      {solveSystem_p001a, solveSystem_p001b, solveSystem_p000, solveSystem_p001c} \<and>
   loading ((ngOnInit newLinearSystemSolver)\<lparr>loading := True\<rparr>) \<and>
   fst (handleSolve solveSystem_p001a
          ((ngOnInit newLinearSystemSolver)\<lparr>loading := True\<rparr>) freshBrowser) = None \<and>
   length (outbox (snd (snd (handleSolve solveSystem_p001a
          ((ngOnInit newLinearSystemSolver)\<lparr>loading := True\<rparr>) freshBrowser)))) = 1 \<and>
   fst (rf_handleSolve ((rf_ngOnInit newRootFinder)\<lparr>loading := True\<rparr>) freshBrowser) = None \<and>
   length (outbox (snd (snd (rf_handleSolve
          ((rf_ngOnInit newRootFinder)\<lparr>loading := True\<rparr>) freshBrowser)))) = 1"
proof -
  have m: "solveSystem_p001a \<in>
      {solveSystem_p001a, solveSystem_p001b, solveSystem_p000, solveSystem_p001c}"
    by simp
  have empty: "outbox freshBrowser = []"
    by (simp add: freshBrowser_def)
  from handleSolve_posts_whatever_loading [OF m,
      of "(ngOnInit newLinearSystemSolver)\<lparr>loading := True\<rparr>" freshBrowser
        "(rf_ngOnInit newRootFinder)\<lparr>loading := True\<rparr>"]
  obtain post s' w' rpost t' rw' where
    "handleSolve solveSystem_p001a
       ((ngOnInit newLinearSystemSolver)\<lparr>loading := True\<rparr>) freshBrowser = (None, s', w')"
    "outbox w' = outbox freshBrowser @ [post]"
    "rf_handleSolve ((rf_ngOnInit newRootFinder)\<lparr>loading := True\<rparr>) freshBrowser =
       (None, t', rw')"
    "outbox rw' = outbox freshBrowser @ [rpost]"
    by blast
  with m empty show ?thesis by simp
qed

text \<open>
  The claim as stated fails: \<open>handleSolve\<close> called again while the first request is
  in flight (\<open>loading\<close> is true, no handler has run) issues a second POST.
\<close>

theorem handleSolve_while_loading_counterexample:
  "loading (fst (snd firstSolve)) \<and>
   length (outbox (snd (snd firstSolve))) = 1 \<and>
   length (outbox (snd (snd secondSolve))) = 2"
proof -
  have m: "solveSystem_p001a \<in>
      {solveSystem_p001a, solveSystem_p001b, solveSystem_p000, solveSystem_p001c}"
    by simp
  from handleSolve_posts [OF m, of "ngOnInit newLinearSystemSolver" freshBrowser]
  obtain post s' w' where
    first: "firstSolve = (None, s', w')" "outbox w' = outbox freshBrowser @ [post]" "loading s'"
    by (auto simp: firstSolve_def)
  from handleSolve_posts [OF m, of s' w']
  obtain post2 s2 w2 where
    second: "secondSolve = (None, s2, w2)" "outbox w2 = outbox w' @ [post2]"
    by (auto simp: secondSolve_def first(1))
  show ?thesis by (simp add: first second freshBrowser_def)
qed

end
